theory Spec2Isabelle
  imports Main
begin

section \<open>The header cell of the data grid (data_grid_header_cell.tsx)\<close>

subsection \<open>The DOM subtree of a header cell\<close>

text \<open>
  A descendant element of the cell's container, reduced to what the component reads and
  writes: the \<^verbatim>\<open>tabindex\<close> attribute (absent or an integer), the presence of the
  \<^verbatim>\<open>data-euigrid-tab-managed\<close> attribute, and what the scanner looks at (whether the
  element kind is focusable by itself, as a button is, whether it is disabled, whether it is
  visible).
\<close>

record element =
  naturalTab :: bool
  tabIndexAttr :: "int option"
  tabManaged :: bool
  elDisabled :: bool
  elVisible :: bool

text \<open>The sequential tab order of an element: the attribute when present, else 0 for a
  naturally focusable element and -1 for any other.\<close>

definition tabOrder :: "element \<Rightarrow> int" where
  "tabOrder e = (case tabIndexAttr e of Some t \<Rightarrow> t | None \<Rightarrow> (if naturalTab e then 0 else - 1))"

definition isTabbable :: "element \<Rightarrow> bool" where
  "isTabbable e = (elVisible e \<and> \<not> elDisabled e \<and> 0 \<le> tabOrder e)"

text \<open>
  Modelled from the spec: the third-party scanner \<^verbatim>\<open>tabbable(root)\<close> (an npm package,
  not part of the repository), as section 4.1 describes it: the descendants that are
  visible, not disabled and have a non-negative natural or explicit tab order, in document
  order. The code mutates the elements the scanner returns, so the result is the list of
  their positions in the subtree.
\<close>

definition tabbable :: "element list \<Rightarrow> nat list" where
  "tabbable es = filter (\<lambda>i. isTabbable (es ! i)) [0..<length es]"

text \<open>\<^verbatim>\<open>headerRef.current.querySelectorAll('[data-euigrid-tab-managed]')\<close>: the descendants
  that carry the marker attribute, in document order.\<close>

definition querySelectorAllManaged :: "element list \<Rightarrow> nat list" where
  "querySelectorAllManaged es = filter (\<lambda>i. tabManaged (es ! i)) [0..<length es]"

text \<open>The two \<^verbatim>\<open>for\<close> loops: each visits the scanned elements in order and sets
  attributes on the element itself.\<close>

definition setEach :: "(element \<Rightarrow> element) \<Rightarrow> nat list \<Rightarrow> element list \<Rightarrow> element list" where
  "setEach f ixs es = fold (\<lambda>i acc. acc[i := f (acc ! i)]) ixs es"

definition setTabIndex :: "int \<Rightarrow> element \<Rightarrow> element" where
  "setTabIndex t e = e\<lparr>tabIndexAttr := Some t\<rparr>"

definition markManaged :: "element \<Rightarrow> element" where
  "markManaged e = e\<lparr>tabManaged := True\<rparr>"

subsection \<open>Decimal numerals in the warning text\<close>

fun stringOfNat :: "nat \<Rightarrow> string" where
  "stringOfNat n =
     (if n < 10 then [''0123456789'' ! n]
      else stringOfNat (n div 10) @ [''0123456789'' ! (n mod 10)])"

declare stringOfNat.simps [simp del]

definition warningText :: "nat \<Rightarrow> string" where
  "warningText n =
     ''EuiDataGridHeaderCell expects at most 1 tabbable element, '' @ stringOfNat n
       @ '' found instead''"

subsection \<open>The component instance\<close>

text \<open>Where \<^verbatim>\<open>document.activeElement\<close> is, as seen from the cell.\<close>

datatype active = Container | Child nat | Elsewhere

text \<open>The callbacks handed to \<^verbatim>\<open>requestAnimationFrame\<close>.\<close>

datatype deferred = DeferredBlur | DeferredFocusCheck

datatype error = TypeError

datatype key = ENTER | ESCAPE | F2 | OtherKey

record cell =
  els :: "element list"
  mounted :: bool
  index :: int
  focusedCell :: "(int \<times> int) option"
  headerIsInteractive :: bool
  isCellEntered :: bool
  activeElement :: active
  warnings :: "string list"
  focusRequests :: "(int \<times> int) list"
  frames :: "deferred list"

definition isFocused :: "cell \<Rightarrow> bool" where
  "isFocused s = (case focusedCell s of None \<Rightarrow> False | Some (c, r) \<Rightarrow> c = index s \<and> r = - 1)"

definition enableInteractives :: "cell \<Rightarrow> cell" where
  "enableInteractives s =
     (let interactiveElements = querySelectorAllManaged (els s)
      in s\<lparr>els := setEach (setTabIndex 0) interactiveElements (els s)\<rparr>)"

definition disableInteractives :: "cell \<Rightarrow> cell" where
  "disableInteractives s =
     (let tababbles = tabbable (els s);
          s1 = (if length tababbles > 1
                then s\<lparr>warnings := warnings s @ [warningText (length tababbles)]\<rparr>
                else s)
      in s1\<lparr>els := setEach (\<lambda>e. setTabIndex (- 1) (markManaged e)) tababbles (els s1)\<rparr>)"

text \<open>The mode effect, \<^verbatim>\<open>useEffect(..., [isCellEntered])\<close>: content mode makes the
  managed elements reachable again and focuses the first element the scanner returns;
  cell mode takes every scanned element out of the tab sequence.\<close>

definition effectEntered :: "cell \<Rightarrow> cell" where
  "effectEntered s =
     (if mounted s then
        (if isCellEntered s then
           (let s1 = enableInteractives s;
                tabbables = tabbable (els s1)
            in if length tabbables > 0 then s1\<lparr>activeElement := Child (tabbables ! 0)\<rparr> else s1)
         else disableInteractives s)
      else s)"

definition setIsCellEntered :: "bool \<Rightarrow> cell \<Rightarrow> cell" where
  "setIsCellEntered b s = s\<lparr>isCellEntered := b\<rparr>"

text \<open>A state update re-renders the component; the mode effect runs again when
  \<^verbatim>\<open>isCellEntered\<close> differs from the value of the previous render.\<close>

definition rerender :: "cell \<Rightarrow> cell \<Rightarrow> cell" where
  "rerender old s = (if isCellEntered s \<noteq> isCellEntered old then effectEntered s else s)"

text \<open>The body of the second effect, before it registers the listeners (so that the
  \<^verbatim>\<open>focus()\<close> call in it reaches no listener of the cell).\<close>

definition effectFocused :: "cell \<Rightarrow> cell" where
  "effectFocused s =
     (if mounted s then
        (if isFocused s then
           (let interactives = querySelectorAllManaged (els s)
            in if length interactives = 1 then setIsCellEntered True s
               else s\<lparr>activeElement := Container\<rparr>)
         else setIsCellEntered False s)
      else s)"

definition onFocusIn :: "cell \<Rightarrow> cell" where
  "onFocusIn s =
     (if headerIsInteractive s = False then s\<lparr>frames := frames s @ [DeferredBlur]\<rparr>
      else s\<lparr>focusRequests := focusRequests s @ [(index s, - 1)]\<rparr>)"

definition onFocusOut :: "cell \<Rightarrow> cell" where
  "onFocusOut s = s\<lparr>frames := frames s @ [DeferredFocusCheck]\<rparr>"

fun onKeyUp :: "key \<Rightarrow> cell \<Rightarrow> cell" where
  "onKeyUp ENTER s = setIsCellEntered True s"
| "onKeyUp ESCAPE s = (setIsCellEntered False s)\<lparr>activeElement := Container\<rparr>"
| "onKeyUp F2 s =
     (if activeElement s = Container then setIsCellEntered True s
      else (setIsCellEntered False s)\<lparr>activeElement := Container\<rparr>)"
| "onKeyUp OtherKey s = s"

text \<open>\<^verbatim>\<open>headerRef.current.contains(document.activeElement)\<close>: a node contains itself.\<close>

definition containsActive :: "cell \<Rightarrow> bool" where
  "containsActive s = (activeElement s \<noteq> Elsewhere)"

text \<open>\<^verbatim>\<open>headerRef.current.blur()\<close>: the container gives up the focus when it holds it.\<close>

definition blurContainer :: "cell \<Rightarrow> cell" where
  "blurContainer s = (if activeElement s = Container then s\<lparr>activeElement := Elsewhere\<rparr> else s)"

text \<open>Running one deferred callback. \<^verbatim>\<open>headerRef.current\<close> is null once the cell is
  unmounted; the blur callback dereferences it with a non-null assertion, the focus check
  tests it first.\<close>

fun runDeferred :: "deferred \<Rightarrow> cell \<Rightarrow> error + cell" where
  "runDeferred DeferredBlur s = (if mounted s then Inr (blurContainer s) else Inl TypeError)"
| "runDeferred DeferredFocusCheck s =
     Inr (if mounted s then
            (if containsActive s = False then rerender s (setIsCellEntered False s) else s)
          else s)"

text \<open>The first render: \<^verbatim>\<open>useState(false)\<close>, then both effects in the order they are
  declared, then the render a state update in the second effect asks for.\<close>

definition mount :: "cell \<Rightarrow> cell" where
  "mount s =
     (let s0 = s\<lparr>mounted := True, isCellEntered := False\<rparr>;
          s1 = effectEntered s0;
          s2 = effectFocused s1
      in rerender s1 s2)"

text \<open>The grid renders the cell with a new focus target or interactivity flag; the second
  effect runs when one of its dependencies differs.\<close>

definition gridUpdate :: "(int \<times> int) option \<Rightarrow> bool \<Rightarrow> cell \<Rightarrow> cell" where
  "gridUpdate fc hi s =
     (let s1 = s\<lparr>focusedCell := fc, headerIsInteractive := hi\<rparr>;
          s2 = (if isFocused s1 \<noteq> isFocused s \<or> headerIsInteractive s1 \<noteq> headerIsInteractive s
                then effectFocused s1 else s1)
      in rerender s1 s2)"

text \<open>What can happen to a cell. The listeners exist while the cell is mounted. The focus
  events that a \<^verbatim>\<open>focus()\<close> call makes the browser dispatch are events of their own
  here, as are the moves of the focus by the user. Unmounting takes the subtree out of the
  document, so the focus is outside it afterwards.\<close>

datatype event =
    Mount
  | Unmount
  | GridUpdate "(int \<times> int) option" bool
  | FocusIn
  | FocusOut
  | KeyUp key
  | AnimationFrame
  | BrowserFocus active

text \<open>A \<^verbatim>\<open>keyup\<close> that reaches the listener: the handler, then the render its state
  update asks for.\<close>

definition keyUp :: "key \<Rightarrow> cell \<Rightarrow> cell" where
  "keyUp k s = rerender s (onKeyUp k s)"

fun step :: "event \<Rightarrow> cell \<Rightarrow> error + cell" where
  "step Mount s = Inr (if mounted s then s else mount s)"
| "step Unmount s = Inr (s\<lparr>mounted := False, activeElement := Elsewhere\<rparr>)"
| "step (GridUpdate fc hi) s = Inr (if mounted s then gridUpdate fc hi s else s)"
| "step FocusIn s = Inr (if mounted s then onFocusIn s else s)"
| "step FocusOut s = Inr (if mounted s then onFocusOut s else s)"
| "step (KeyUp k) s = Inr (if mounted s then keyUp k s else s)"
| "step AnimationFrame s =
     (case frames s of [] \<Rightarrow> Inr s | d # ds \<Rightarrow> runDeferred d (s\<lparr>frames := ds\<rparr>))"
| "step (BrowserFocus a) s = Inr (s\<lparr>activeElement := a\<rparr>)"

fun run :: "event list \<Rightarrow> cell \<Rightarrow> error + cell" where
  "run [] s = Inr s"
| "run (e # es) s = (case step e s of Inl err \<Rightarrow> Inl err | Inr s' \<Rightarrow> run es s')"

subsection \<open>What the cell renders\<close>

record sortColumn =
  colId :: string
  direction :: string

text \<open>\<^verbatim>\<open>Array.prototype.join\<close>.\<close>

fun joinWith :: "string \<Rightarrow> string list \<Rightarrow> string" where
  "joinWith sep [] = []"
| "joinWith sep [x] = x"
| "joinWith sep (x # y # ys) = x @ sep @ joinWith sep (y # ys)"

record sortInfo =
  ariaSort :: "string option"
  ariaDescribedby :: "string option"
  screenReaderId :: "string option"
  sortString :: "string option"

text \<open>Lines 48 to 77. The id generator \<^verbatim>\<open>htmlIdGenerator()()\<close> belongs to another
  module; the id it returns is the parameter \<open>gen\<close>.\<close>

definition computeSort :: "string \<Rightarrow> sortColumn list option \<Rightarrow> string \<Rightarrow> sortInfo" where
  "computeSort gen sorting cid =
     (let none = \<lparr>ariaSort = None, ariaDescribedby = None, screenReaderId = None,
                  sortString = None\<rparr>
      in case sorting of
           None \<Rightarrow> none
         | Some columns \<Rightarrow>
             (let sortedColumnIds = set (map colId columns)
              in if length columns = 1 \<and> cid \<in> sortedColumnIds then
                   (let sortDirection = direction (columns ! 0);
                        sortValue = (if sortDirection = ''asc'' then ''ascending''
                                     else if sortDirection = ''desc'' then ''descending''
                                     else ''other'')
                    in none\<lparr>ariaSort := Some sortValue\<rparr>)
                 else if length columns \<ge> 2 \<and> cid \<in> sortedColumnIds then
                   none\<lparr>sortString :=
                          Some (joinWith '' then ''
                                  (map (\<lambda>col. ''Sorted by '' @ colId col @ '' '' @ direction col)
                                     columns)),
                        screenReaderId := Some gen,
                        ariaDescribedby := Some gen\<rparr>
                 else none))"

text \<open>The rendered container: its ARIA attributes, its \<^verbatim>\<open>tabIndex\<close>, and the
  screen-reader-only node (its id and its text) when there is one.\<close>

record rendered =
  rAriaSort :: "string option"
  rAriaDescribedby :: "string option"
  rTabIndex :: int
  rScreenReaderOnly :: "(string option \<times> string option) option"

definition containerTabIndex :: "cell \<Rightarrow> int" where
  "containerTabIndex s = (if isFocused s then 0 else - 1)"

definition render :: "string \<Rightarrow> sortColumn list option \<Rightarrow> string \<Rightarrow> cell \<Rightarrow> rendered" where
  "render gen sorting cid s =
     (let info = computeSort gen sorting cid
      in \<lparr>rAriaSort = ariaSort info,
          rAriaDescribedby = ariaDescribedby info,
          rTabIndex = containerTabIndex s,
          rScreenReaderOnly =
            (case sorting of
               None \<Rightarrow> None
             | Some columns \<Rightarrow>
                 (if length columns \<ge> 2 then Some (screenReaderId info, sortString info)
                  else None))\<rparr>)"

text \<open>The elements of the subtree that sequential navigation reaches: the container when
  its \<^verbatim>\<open>tabIndex\<close> is not negative, and the descendants the scanner finds.\<close>

definition reachableCount :: "cell \<Rightarrow> nat" where
  "reachableCount s =
     (if 0 \<le> containerTabIndex s then 1 else 0) + length (tabbable (els s))"



text \<open>Every element that carries the marker in the first subtree carries it in the second
  (the two have the same elements, in the same order).\<close>

definition markersKept :: "element list \<Rightarrow> element list \<Rightarrow> bool" where
  "markersKept es es' = list_all2 (\<lambda>e e'. tabManaged e \<longrightarrow> tabManaged e') es es'"

subsection \<open>Example cells\<close>

definition button :: element where
  "button = \<lparr>naturalTab = True, tabIndexAttr = None, tabManaged = False, elDisabled = False,
     elVisible = True\<rparr>"

definition twoButtons :: cell where
  "twoButtons = \<lparr>els = [button, button], mounted = True, index = 2, focusedCell = None,
     headerIsInteractive = True, isCellEntered = False, activeElement = Elsewhere,
     warnings = [], focusRequests = [], frames = []\<rparr>"

definition ageAsc :: sortColumn where
  "ageAsc = \<lparr>colId = ''age'', direction = ''asc''\<rparr>"

definition nameDesc :: sortColumn where
  "nameDesc = \<lparr>colId = ''name'', direction = ''desc''\<rparr>"

definition cityAsc :: sortColumn where
  "cityAsc = \<lparr>colId = ''city'', direction = ''asc''\<rparr>"

text \<open>A cell of a header that is not interactive, before it is mounted.\<close>

definition bouncingCell :: cell where
  "bouncingCell = \<lparr>els = [button], mounted = False, index = 2, focusedCell = None,
     headerIsInteractive = False, isCellEntered = False, activeElement = Elsewhere,
     warnings = [], focusRequests = [], frames = []\<rparr>"

text \<open>A mounted cell of such a header whose container has just received the focus.\<close>

definition bouncedCell :: cell where
  "bouncedCell = \<lparr>els = [], mounted = True, index = 2, focusedCell = None,
     headerIsInteractive = False, isCellEntered = False, activeElement = Container,
     warnings = [], focusRequests = [], frames = []\<rparr>"

text \<open>The button after a pass of \<^verbatim>\<open>disableInteractives\<close>, and after a pass of
  \<^verbatim>\<open>enableInteractives\<close>.\<close>

definition managedButton :: element where
  "managedButton = \<lparr>naturalTab = True, tabIndexAttr = Some (- 1), tabManaged = True,
     elDisabled = False, elVisible = True\<rparr>"

definition enabledButton :: element where
  "enabledButton = \<lparr>naturalTab = True, tabIndexAttr = Some 0, tabManaged = True,
     elDisabled = False, elVisible = True\<rparr>"

text \<open>Cells with one button: before the first render, not the focus target
  (\<open>idleOne\<close>) and the focus target (\<open>freshOne\<close>); mounted and collapsed, not the focus
  target (\<open>collapsedOne\<close>); the focus target in content mode with the focus on the button
  (\<open>enteredOne\<close>) and on the container (\<open>desyncOne\<close>); the focus target in cell mode with
  the focus on the container (\<open>escapedOne\<close>).\<close>

definition idleOne :: cell where
  "idleOne = \<lparr>els = [button], mounted = False, index = 2, focusedCell = None,
     headerIsInteractive = True, isCellEntered = False, activeElement = Elsewhere,
     warnings = [], focusRequests = [], frames = []\<rparr>"

definition freshOne :: cell where
  "freshOne = \<lparr>els = [button], mounted = False, index = 2, focusedCell = Some (2, - 1),
     headerIsInteractive = True, isCellEntered = False, activeElement = Elsewhere,
     warnings = [], focusRequests = [], frames = []\<rparr>"

definition collapsedOne :: cell where
  "collapsedOne = \<lparr>els = [managedButton], mounted = True, index = 2, focusedCell = None,
     headerIsInteractive = True, isCellEntered = False, activeElement = Elsewhere,
     warnings = [], focusRequests = [], frames = []\<rparr>"

definition enteredOne :: cell where
  "enteredOne = \<lparr>els = [enabledButton], mounted = True, index = 2, focusedCell = Some (2, - 1),
     headerIsInteractive = True, isCellEntered = True, activeElement = Child 0,
     warnings = [], focusRequests = [], frames = []\<rparr>"

definition desyncOne :: cell where
  "desyncOne = \<lparr>els = [enabledButton], mounted = True, index = 2, focusedCell = Some (2, - 1),
     headerIsInteractive = True, isCellEntered = True, activeElement = Container,
     warnings = [], focusRequests = [], frames = []\<rparr>"

definition escapedOne :: cell where
  "escapedOne = \<lparr>els = [managedButton], mounted = True, index = 2, focusedCell = Some (2, - 1),
     headerIsInteractive = True, isCellEntered = False, activeElement = Container,
     warnings = [], focusRequests = [], frames = []\<rparr>"




section \<open>Properties\<close>

subsection \<open>Scanning and the two tab-reachability operations\<close>

lemma length_setEach: "length (setEach f ixs es) = length es"
  unfolding setEach_def by (induction ixs arbitrary: es) simp_all

lemma nth_setEach:
  assumes "i < length es" "\<And>e. f (f e) = f e"
  shows "setEach f ixs es ! i = (if i \<in> set ixs then f (es ! i) else es ! i)"
  using assms(1) unfolding setEach_def
proof (induction ixs arbitrary: es)
  case Nil
  then show ?case by simp
next
  case (Cons a ixs)
  show ?case
  proof (cases "a = i")
    case True
    with Cons show ?thesis using assms(2) by simp
  next
    case False
    with Cons show ?thesis by simp
  qed
qed

lemma set_tabbable: "set (tabbable es) = {i. i < length es \<and> isTabbable (es ! i)}"
  by (auto simp: tabbable_def)

lemma set_managed: "set (querySelectorAllManaged es) = {i. i < length es \<and> tabManaged (es ! i)}"
  by (auto simp: querySelectorAllManaged_def)

lemma setEach_map:
  assumes "\<And>e. f (f e) = f e" "set ixs = {i. i < length es \<and> P (es ! i)}"
  shows "setEach f ixs es = map (\<lambda>e. if P e then f e else e) es"
proof (rule nth_equalityI)
  show "length (setEach f ixs es) = length (map (\<lambda>e. if P e then f e else e) es)"
    by (simp add: length_setEach)
next
  fix i assume "i < length (setEach f ixs es)"
  then have i: "i < length es" by (simp add: length_setEach)
  then show "setEach f ixs es ! i = map (\<lambda>e. if P e then f e else e) es ! i"
    using assms by (simp add: nth_setEach)
qed

lemma els_enableInteractives:
  "els (enableInteractives s) = map (\<lambda>e. if tabManaged e then setTabIndex 0 e else e) (els s)"
  unfolding enableInteractives_def Let_def
  by (simp add: setEach_map [where P = tabManaged] set_managed setTabIndex_def)

lemma els_disableInteractives:
  "els (disableInteractives s) =
     map (\<lambda>e. if isTabbable e then setTabIndex (- 1) (markManaged e) else e) (els s)"
  unfolding disableInteractives_def Let_def
  by (simp add: setEach_map [where P = isTabbable] set_tabbable setTabIndex_def markManaged_def)

lemma not_isTabbable_disabled: "\<not> isTabbable (setTabIndex (- 1) (markManaged e))"
  by (simp add: isTabbable_def tabOrder_def setTabIndex_def markManaged_def)

lemma tabbable_Nil_iff: "tabbable es = [] \<longleftrightarrow> (\<forall>e \<in> set es. \<not> isTabbable e)"
  by (auto simp: tabbable_def filter_empty_conv all_set_conv_all_nth)

lemma tabbable_disableInteractives: "tabbable (els (disableInteractives s)) = []"
  by (auto simp: tabbable_Nil_iff els_disableInteractives not_isTabbable_disabled)

lemma disableInteractives_idem: "disableInteractives (disableInteractives s) = disableInteractives s"
proof -
  have "tabbable (els (disableInteractives s)) = []" by (rule tabbable_disableInteractives)
  then show ?thesis
    by (subst (1) disableInteractives_def) (simp add: Let_def setEach_def)
qed

lemma enableInteractives_frame: "enableInteractives s = s\<lparr>els := els (enableInteractives s)\<rparr>"
  by (simp add: enableInteractives_def Let_def)

lemma disableInteractives_frame:
  "disableInteractives s =
     s\<lparr>els := els (disableInteractives s), warnings := warnings (disableInteractives s)\<rparr>"
  by (simp add: disableInteractives_def Let_def)

lemma enableInteractives_idem: "enableInteractives (enableInteractives s) = enableInteractives s"
proof -
  have "els (enableInteractives (enableInteractives s)) = els (enableInteractives s)"
    by (simp add: els_enableInteractives setTabIndex_def)
  then show ?thesis
    by (metis enableInteractives_frame cell.update_convs(1) cell.surjective)
qed

lemma warnings_disableInteractives:
  "warnings (disableInteractives s) =
     (if length (tabbable (els s)) > 1
      then warnings s @ [warningText (length (tabbable (els s)))] else warnings s)"
  by (simp add: disableInteractives_def Let_def)

text \<open>
  C5: when the scanner finds more than one tabbable element in the subtree,
  \<^verbatim>\<open>disableInteractives\<close> logs one warning, which names the number found, and still
  goes on: every element the scanner found, not only the first, carries the tab-managed
  marker and the tab order -1 afterwards.
\<close>

theorem disableInteractives_warns_and_marks_all:
  assumes "length (tabbable (els s)) > 1"
  shows "warnings (disableInteractives s) = warnings s @ [warningText (length (tabbable (els s)))]
    \<and> length (els (disableInteractives s)) = length (els s)
    \<and> (\<forall>i \<in> set (tabbable (els s)).
          tabManaged (els (disableInteractives s) ! i)
          \<and> tabIndexAttr (els (disableInteractives s) ! i) = Some (- 1)
          \<and> tabOrder (els (disableInteractives s) ! i) = - 1)"
  using assms
  by (simp add: warnings_disableInteractives els_disableInteractives set_tabbable
      setTabIndex_def markManaged_def tabOrder_def)

lemma tabbable_twoButtons: "tabbable (els twoButtons) = [0, 1]"
  by (simp add: twoButtons_def tabbable_def button_def isTabbable_def tabOrder_def upt_rec)

lemma stringOfNat_2: "stringOfNat (Suc (Suc 0)) = ''2''"
  by (simp add: stringOfNat.simps)

theorem disableInteractives_warns_and_marks_all_witness:
  "length (tabbable (els twoButtons)) > 1
   \<and> warnings (disableInteractives twoButtons)
       = [''EuiDataGridHeaderCell expects at most 1 tabbable element, 2 found instead'']
   \<and> tabManaged (els (disableInteractives twoButtons) ! 0)
   \<and> tabManaged (els (disableInteractives twoButtons) ! 1)
   \<and> tabIndexAttr (els (disableInteractives twoButtons) ! 0) = Some (- 1)
   \<and> tabIndexAttr (els (disableInteractives twoButtons) ! 1) = Some (- 1)"
proof -
  have h: "length (tabbable (els twoButtons)) > 1"
    by (simp add: tabbable_twoButtons)
  have w: "warnings twoButtons = []"
    by (simp add: twoButtons_def)
  from disableInteractives_warns_and_marks_all [OF h] show ?thesis
    using h w by (simp add: tabbable_twoButtons warningText_def stringOfNat_2)
qed

text \<open>
  C8: both operations are idempotent, \<^verbatim>\<open>enableInteractives\<close> twice is
  \<^verbatim>\<open>enableInteractives\<close> once and likewise for \<^verbatim>\<open>disableInteractives\<close>, and each
  changes nothing but the tab index and the marker of the elements it scanned: the managed
  ones for the first, the tabbable ones for the second (which may also log its warning).
\<close>

theorem interactives_idempotent_attributes_only:
  "enableInteractives (enableInteractives s) = enableInteractives s
   \<and> disableInteractives (disableInteractives s) = disableInteractives s
   \<and> els (enableInteractives s)
       = map (\<lambda>e. if tabManaged e then e\<lparr>tabIndexAttr := Some 0\<rparr> else e) (els s)
   \<and> els (disableInteractives s)
       = map (\<lambda>e. if isTabbable e then e\<lparr>tabManaged := True, tabIndexAttr := Some (- 1)\<rparr> else e)
           (els s)
   \<and> enableInteractives s = s\<lparr>els := els (enableInteractives s)\<rparr>
   \<and> disableInteractives s
       = s\<lparr>els := els (disableInteractives s), warnings := warnings (disableInteractives s)\<rparr>"
proof -
  have "els (enableInteractives s)
       = map (\<lambda>e. if tabManaged e then e\<lparr>tabIndexAttr := Some 0\<rparr> else e) (els s)"
    by (simp add: els_enableInteractives setTabIndex_def)
  moreover have "els (disableInteractives s)
       = map (\<lambda>e. if isTabbable e then e\<lparr>tabManaged := True, tabIndexAttr := Some (- 1)\<rparr> else e)
           (els s)"
    by (simp add: els_disableInteractives setTabIndex_def markManaged_def)
  ultimately show ?thesis
    using enableInteractives_idem [of s] disableInteractives_idem [of s]
      enableInteractives_frame [of s] disableInteractives_frame [of s]
    by simp
qed


subsection \<open>The ARIA attributes of the container\<close>

text \<open>
  C6: the container carries \<^verbatim>\<open>aria-sort\<close> exactly when the sort sequence has one
  entry and that entry is this column; its value is \<^verbatim>\<open>ascending\<close> for the direction
  \<^verbatim>\<open>asc\<close>, \<^verbatim>\<open>descending\<close> for \<^verbatim>\<open>desc\<close> and \<^verbatim>\<open>other\<close> for any other
  direction. Without sorting, with no entry, with an entry of another column or with
  several entries there is no \<^verbatim>\<open>aria-sort\<close>.
\<close>

theorem aria_sort_single_column:
  "rAriaSort (render gen sorting cid s) =
     (case sorting of
        Some [c] \<Rightarrow>
          (if colId c = cid then
             Some (if direction c = ''asc'' then ''ascending''
                   else if direction c = ''desc'' then ''descending''
                   else ''other'')
           else None)
      | _ \<Rightarrow> None)"
  by (simp add: render_def computeSort_def Let_def split: option.splits list.splits)

lemma aria_sort_age_example: "rAriaSort (render gen (Some [ageAsc]) ''age'' s) = Some ''ascending''"
  by (simp add: render_def computeSort_def ageAsc_def)

lemma joinWith_Cons: "joinWith sep (x # xs) = x @ concat (map (\<lambda>y. sep @ y) xs)"
  by (induction xs arbitrary: x) simp_all

text \<open>
  C7: when the sort sequence has two or more entries and this column is one of them, the
  container's \<^verbatim>\<open>aria-describedby\<close> is the generated id, the screen-reader-only node is
  rendered with that id, and its text is "Sorted by id direction" of the first entry
  followed, for every further entry in the order of the sequence, by " then " and
  "Sorted by id direction" of that entry.
\<close>

theorem aria_describedby_multi_column:
  assumes "sorting = Some columns" "length columns \<ge> 2" "cid \<in> set (map colId columns)"
  shows "rAriaDescribedby (render gen sorting cid s) = Some gen
    \<and> rAriaSort (render gen sorting cid s) = None
    \<and> rScreenReaderOnly (render gen sorting cid s) =
        Some (Some gen,
              Some (''Sorted by '' @ colId (hd columns) @ '' '' @ direction (hd columns)
                    @ concat (map (\<lambda>col. '' then '' @ ''Sorted by '' @ colId col @ '' ''
                                          @ direction col) (tl columns))))"
proof -
  from assms(2) obtain c cs where c: "columns = c # cs"
    by (cases columns) auto
  show ?thesis
    using assms by (auto simp: render_def computeSort_def Let_def c joinWith_Cons comp_def)
qed

theorem aria_describedby_multi_column_witness:
  "length [ageAsc, nameDesc] \<ge> 2 \<and> ''age'' \<in> set (map colId [ageAsc, nameDesc])
   \<and> rAriaDescribedby (render ''generated-id'' (Some [ageAsc, nameDesc]) ''age'' twoButtons)
       = Some ''generated-id''
   \<and> rScreenReaderOnly (render ''generated-id'' (Some [ageAsc, nameDesc]) ''age'' twoButtons)
       = Some (Some ''generated-id'', Some ''Sorted by age asc then Sorted by name desc'')
   \<and> length [ageAsc, nameDesc, cityAsc] \<ge> 2
   \<and> ''city'' \<in> set (map colId [ageAsc, nameDesc, cityAsc])
   \<and> rScreenReaderOnly (render ''generated-id'' (Some [ageAsc, nameDesc, cityAsc]) ''city'' twoButtons)
       = Some (Some ''generated-id'',
               Some ''Sorted by age asc then Sorted by name desc then Sorted by city asc'')"
proof -
  have l: "length [ageAsc, nameDesc] \<ge> 2" by simp
  have m: "''age'' \<in> set (map colId [ageAsc, nameDesc])" by (simp add: ageAsc_def)
  have l3: "length [ageAsc, nameDesc, cityAsc] \<ge> 2" by simp
  have m3: "''city'' \<in> set (map colId [ageAsc, nameDesc, cityAsc])" by (simp add: cityAsc_def)
  note a = aria_describedby_multi_column [OF refl l m, of "''generated-id''" twoButtons]
  note b = aria_describedby_multi_column [OF refl l3 m3, of "''generated-id''" twoButtons]
  have a': "rAriaDescribedby (render ''generated-id'' (Some [ageAsc, nameDesc]) ''age'' twoButtons)
       = Some ''generated-id''"
    using a by blast
  have a'': "rScreenReaderOnly (render ''generated-id'' (Some [ageAsc, nameDesc]) ''age'' twoButtons)
       = Some (Some ''generated-id'', Some ''Sorted by age asc then Sorted by name desc'')"
    using a [THEN conjunct2, THEN conjunct2] by (simp add: ageAsc_def nameDesc_def)
  have b'': "rScreenReaderOnly (render ''generated-id'' (Some [ageAsc, nameDesc, cityAsc]) ''city'' twoButtons)
       = Some (Some ''generated-id'',
               Some ''Sorted by age asc then Sorted by name desc then Sorted by city asc'')"
    using b [THEN conjunct2, THEN conjunct2] by (simp add: ageAsc_def nameDesc_def cityAsc_def)
  show ?thesis
    using l m l3 m3 a' a'' b'' by blast
qed

subsection \<open>The focus listeners and the deferred callbacks\<close>

text \<open>
  C4: on a \<^verbatim>\<open>focusin\<close> with \<^verbatim>\<open>headerIsInteractive\<close> false the handler queues the
  blur of the container for the next animation frame and sends no request to the grid;
  that frame then takes the focus off the container of the mounted cell. With
  \<^verbatim>\<open>headerIsInteractive\<close> true the handler asks the grid to make (index, -1) the focus
  target and queues nothing.
\<close>

theorem focusin_bounces_or_requests_focus:
  "(\<not> headerIsInteractive s \<longrightarrow>
      focusRequests (onFocusIn s) = focusRequests s
      \<and> frames (onFocusIn s) = frames s @ [DeferredBlur]
      \<and> (mounted s \<and> frames s = [] \<longrightarrow>
           step FocusIn s = Inr (onFocusIn s)
           \<and> step AnimationFrame (onFocusIn s) = Inr (blurContainer s)
           \<and> activeElement (blurContainer s) \<noteq> Container
           \<and> focusRequests (blurContainer s) = focusRequests s))
   \<and> (headerIsInteractive s \<longrightarrow>
      focusRequests (onFocusIn s) = focusRequests s @ [(index s, - 1)]
      \<and> frames (onFocusIn s) = frames s
      \<and> (mounted s \<longrightarrow> step FocusIn s = Inr (onFocusIn s)))"
  by (auto simp: onFocusIn_def blurContainer_def)

theorem focusin_bounces_or_requests_focus_witness:
  "\<not> headerIsInteractive bouncedCell \<and> mounted bouncedCell \<and> frames bouncedCell = []
   \<and> step FocusIn bouncedCell = Inr (bouncedCell\<lparr>frames := [DeferredBlur]\<rparr>)
   \<and> step AnimationFrame (bouncedCell\<lparr>frames := [DeferredBlur]\<rparr>)
       = Inr (bouncedCell\<lparr>activeElement := Elsewhere\<rparr>)
   \<and> focusRequests (onFocusIn bouncedCell) = []
   \<and> headerIsInteractive twoButtons \<and> mounted twoButtons
   \<and> focusRequests (onFocusIn twoButtons) = [(2, - 1)]
   \<and> step FocusIn twoButtons = Inr (twoButtons\<lparr>focusRequests := [(2, - 1)]\<rparr>)"
proof -
  have a: "\<not> headerIsInteractive bouncedCell \<and> mounted bouncedCell \<and> frames bouncedCell = []"
    by (simp add: bouncedCell_def)
  have b: "headerIsInteractive twoButtons \<and> mounted twoButtons"
    by (simp add: twoButtons_def)
  have c: "onFocusIn bouncedCell = bouncedCell\<lparr>frames := [DeferredBlur]\<rparr>"
    by (simp add: onFocusIn_def bouncedCell_def)
  have d: "blurContainer bouncedCell = bouncedCell\<lparr>activeElement := Elsewhere\<rparr>"
    by (simp add: blurContainer_def bouncedCell_def)
  have e: "onFocusIn twoButtons = twoButtons\<lparr>focusRequests := [(2, - 1)]\<rparr>"
    by (simp add: onFocusIn_def twoButtons_def)
  have f: "focusRequests bouncedCell = []"
    by (simp add: bouncedCell_def)
  show ?thesis
    using focusin_bounces_or_requests_focus [of bouncedCell]
      focusin_bounces_or_requests_focus [of twoButtons] a b f
    unfolding c d e by simp
qed

text \<open>
  C3: the deferred blur is not guarded. A cell of a non-interactive header is mounted, its
  container receives the focus, the cell is unmounted before the next animation frame: the
  callback then dereferences the null \<^verbatim>\<open>headerRef.current\<close>. The deferred focus check
  in the same situation tests the reference and does nothing.
\<close>

theorem deferred_blur_after_unmount_fails:
  "run [Mount, BrowserFocus Container, FocusIn, Unmount, AnimationFrame] bouncingCell = Inl TypeError
   \<and> run [Mount, BrowserFocus Container, FocusOut, Unmount, AnimationFrame] bouncingCell \<noteq> Inl TypeError"
  by (simp add: bouncingCell_def mount_def effectEntered_def effectFocused_def rerender_def
      disableInteractives_def Let_def tabbable_def button_def isTabbable_def tabOrder_def
      setEach_def setTabIndex_def markManaged_def isFocused_def setIsCellEntered_def
      onFocusIn_def onFocusOut_def)

subsection \<open>The two effects\<close>

lemma isFocused_simps [simp]:
  "isFocused (s\<lparr>els := es\<rparr>) = isFocused s"
  "isFocused (s\<lparr>isCellEntered := b\<rparr>) = isFocused s"
  "isFocused (s\<lparr>activeElement := a\<rparr>) = isFocused s"
  "isFocused (s\<lparr>warnings := w\<rparr>) = isFocused s"
  "isFocused (s\<lparr>mounted := m\<rparr>) = isFocused s"
  "isFocused (s\<lparr>headerIsInteractive := h\<rparr>) = isFocused s"
  by (simp_all add: isFocused_def split: option.splits)


lemma enableInteractives_fields [simp]:
  "mounted (enableInteractives s) = mounted s"
  "isCellEntered (enableInteractives s) = isCellEntered s"
  "activeElement (enableInteractives s) = activeElement s"
  "isFocused (enableInteractives s) = isFocused s"
  by (simp_all add: enableInteractives_def Let_def)

lemma disableInteractives_fields [simp]:
  "mounted (disableInteractives s) = mounted s"
  "isCellEntered (disableInteractives s) = isCellEntered s"
  "activeElement (disableInteractives s) = activeElement s"
  "isFocused (disableInteractives s) = isFocused s"
  by (simp_all add: disableInteractives_def Let_def)

lemma effectEntered_fields [simp]:
  "mounted (effectEntered s) = mounted s"
  "isCellEntered (effectEntered s) = isCellEntered s"
  "isFocused (effectEntered s) = isFocused s"
  by (simp_all add: effectEntered_def Let_def)

lemma activeElement_effectEntered_cell:
  "\<not> isCellEntered s \<Longrightarrow> activeElement (effectEntered s) = activeElement s"
  by (simp add: effectEntered_def)




lemma els_effectEntered:
  "els (effectEntered s) =
     (if mounted s then (if isCellEntered s then els (enableInteractives s)
                         else els (disableInteractives s))
      else els s)"
  by (simp add: effectEntered_def Let_def)

lemma containerTabIndex_effectEntered: "containerTabIndex (effectEntered s) = containerTabIndex s"
  by (simp add: containerTabIndex_def)

lemma rerender_same: "rerender s s = s"
  by (simp add: rerender_def)

lemma els_effectFocused: "els (effectFocused s) = els s"
  by (simp add: effectFocused_def setIsCellEntered_def Let_def)

lemma els_onKeyUp: "els (onKeyUp k s) = els s"
  by (cases k) (simp_all add: setIsCellEntered_def)

lemma managed_enableInteractives:
  "querySelectorAllManaged (els (enableInteractives s)) = querySelectorAllManaged (els s)"
  unfolding querySelectorAllManaged_def els_enableInteractives
  by (auto intro!: filter_cong simp: setTabIndex_def split: if_splits)

lemma managed_Nil: "(\<forall>e \<in> set es. \<not> tabManaged e) \<Longrightarrow> querySelectorAllManaged es = []"
  by (auto simp: querySelectorAllManaged_def filter_empty_conv)


subsection \<open>Traces from the first render\<close>


lemma mount_freshOne: "mount freshOne = enteredOne"
  by code_simp

lemma run_freshOne_desync: "run [Mount, BrowserFocus Container] freshOne = Inr desyncOne"
  by code_simp

lemma run_freshOne_escaped:
  "run [Mount, BrowserFocus Container, KeyUp ESCAPE] freshOne = Inr escapedOne"
  by code_simp


subsection \<open>The logical focus target\<close>





subsection \<open>Tab stops of the subtree\<close>

lemma tabbable_map_cong:
  assumes "\<And>e. e \<in> set es \<Longrightarrow> isTabbable (f e) = P e"
  shows "tabbable (map f es) = filter (\<lambda>i. P (es ! i)) [0..<length es]"
  unfolding tabbable_def using assms by (auto intro!: filter_cong)

lemma tabbable_enable_collapsed:
  assumes "tabbable (els s) = []"
  shows "tabbable (els (enableInteractives s)) =
     filter (\<lambda>i. tabManaged (els s ! i) \<and> elVisible (els s ! i) \<and> \<not> elDisabled (els s ! i))
       [0..<length (els s)]"
  unfolding els_enableInteractives
proof (rule tabbable_map_cong)
  fix e assume "e \<in> set (els s)"
  with assms have "\<not> isTabbable e" by (simp add: tabbable_Nil_iff)
  then show "isTabbable (if tabManaged e then setTabIndex 0 e else e) =
      (tabManaged e \<and> elVisible e \<and> \<not> elDisabled e)"
    by (auto simp: isTabbable_def tabOrder_def setTabIndex_def)
qed


text \<open>
  The number of reachable elements is not always one: a mounted cell that is not the
  focus target has none (its container has \<^verbatim>\<open>tabIndex\<close> -1 and its button was taken
  out of the tab sequence), and a cell that is the focus target and has entered content mode
  has two (its container and its button).
\<close>

theorem single_tab_stop_counterexample:
  "reachableCount (mount idleOne) = 0 \<and> reachableCount (mount freshOne) = 2"
  by code_simp


text \<open>
  C1, as the code has it. After the mode effect has run on a mounted cell: in cell mode no
  descendant is reachable and the container is reachable exactly when the cell is the
  logical focus target, so exactly one element of the subtree is reachable, the container,
  when the cell is the focus target, and none otherwise; in content mode entered from a
  collapsed cell the reachable descendants are exactly the visible, enabled tab-managed
  ones (the single interactive descendant when there is one).
\<close>

theorem tab_stops_after_mode_effect:
  assumes "mounted s"
  shows "(\<not> isCellEntered s \<longrightarrow>
            tabbable (els (effectEntered s)) = []
            \<and> (0 \<le> containerTabIndex (effectEntered s)) = isFocused s
            \<and> reachableCount (effectEntered s) = (if isFocused s then 1 else 0))
     \<and> (isCellEntered s \<and> tabbable (els s) = [] \<longrightarrow>
            tabbable (els (effectEntered s)) =
              filter (\<lambda>i. tabManaged (els s ! i) \<and> elVisible (els s ! i) \<and> \<not> elDisabled (els s ! i))
                [0..<length (els s)])"
  using assms
  by (simp add: reachableCount_def containerTabIndex_effectEntered els_effectEntered
      tabbable_disableInteractives tabbable_enable_collapsed containerTabIndex_def)

theorem tab_stops_after_mode_effect_witness:
  "mounted collapsedOne \<and> \<not> isCellEntered collapsedOne \<and> \<not> isFocused collapsedOne
   \<and> reachableCount (effectEntered collapsedOne) = 0
   \<and> mounted escapedOne \<and> \<not> isCellEntered escapedOne \<and> isFocused escapedOne
   \<and> reachableCount (effectEntered escapedOne) = 1
   \<and> mounted (setIsCellEntered True escapedOne) \<and> isCellEntered (setIsCellEntered True escapedOne)
   \<and> tabbable (els (setIsCellEntered True escapedOne)) = []
   \<and> tabbable (els (effectEntered (setIsCellEntered True escapedOne))) = [0]"
proof -
  have a: "mounted collapsedOne \<and> \<not> isCellEntered collapsedOne \<and> \<not> isFocused collapsedOne"
    by code_simp
  have b: "mounted escapedOne \<and> \<not> isCellEntered escapedOne \<and> isFocused escapedOne"
    by code_simp
  have c: "mounted (setIsCellEntered True escapedOne) \<and> isCellEntered (setIsCellEntered True escapedOne)
      \<and> isFocused (setIsCellEntered True escapedOne)
      \<and> tabbable (els (setIsCellEntered True escapedOne)) = []"
    by code_simp
  have d: "filter (\<lambda>i. tabManaged (els (setIsCellEntered True escapedOne) ! i)
                \<and> elVisible (els (setIsCellEntered True escapedOne) ! i)
                \<and> \<not> elDisabled (els (setIsCellEntered True escapedOne) ! i))
              [0..<length (els (setIsCellEntered True escapedOne))] = [0]"
    by code_simp
  have k1: "reachableCount (effectEntered collapsedOne) = 0"
    using tab_stops_after_mode_effect [of collapsedOne] a by simp
  have k2: "reachableCount (effectEntered escapedOne) = 1"
    using tab_stops_after_mode_effect [of escapedOne] b by simp
  have k3: "tabbable (els (effectEntered (setIsCellEntered True escapedOne))) = [0]"
    using tab_stops_after_mode_effect [of "setIsCellEntered True escapedOne"] c d by simp
  show ?thesis
    using a b c k1 k2 k3 by simp
qed


subsection \<open>The F2 key\<close>

lemma keyUp_F2_container:
  assumes "mounted s" "activeElement s = Container" "\<not> isCellEntered s"
  shows "keyUp F2 s =
    (case tabbable (els (enableInteractives (s\<lparr>isCellEntered := True\<rparr>))) of
       [] \<Rightarrow> enableInteractives (s\<lparr>isCellEntered := True\<rparr>)
     | i # _ \<Rightarrow> (enableInteractives (s\<lparr>isCellEntered := True\<rparr>))\<lparr>activeElement := Child i\<rparr>)"
  using assms
  by (simp add: keyUp_def rerender_def setIsCellEntered_def effectEntered_def Let_def
      split: list.splits)

lemma keyUp_F2_inside:
  assumes "mounted s" "activeElement s \<noteq> Container"
  shows "keyUp F2 s =
    (if isCellEntered s
     then disableInteractives (s\<lparr>isCellEntered := False, activeElement := Container\<rparr>)
     else s\<lparr>isCellEntered := False, activeElement := Container\<rparr>)"
  using assms
  by (simp add: keyUp_def rerender_def setIsCellEntered_def effectEntered_def Let_def)

lemma isTabbable_enable_disable:
  assumes "tabManaged e \<longrightarrow> isTabbable e"
  shows "isTabbable ((\<lambda>e. if tabManaged e then setTabIndex 0 e else e)
           ((\<lambda>e. if isTabbable e then setTabIndex (- 1) (markManaged e) else e) e)) = isTabbable e"
  using assms by (auto simp: isTabbable_def tabOrder_def setTabIndex_def markManaged_def)

lemma tabbable_enable_disable:
  assumes "set (querySelectorAllManaged (els s)) \<subseteq> set (tabbable (els s))"
  shows "tabbable (els (enableInteractives (disableInteractives s))) = tabbable (els s)"
proof -
  have m: "tabManaged e \<longrightarrow> isTabbable e" if "e \<in> set (els s)" for e
    using that assms by (auto simp: set_managed set_tabbable in_set_conv_nth)
  have "tabbable (els (enableInteractives (disableInteractives s))) =
      filter (\<lambda>i. isTabbable (els s ! i)) [0..<length (els s)]"
    unfolding els_enableInteractives els_disableInteractives map_map comp_def
    by (rule tabbable_map_cong) (use m isTabbable_enable_disable in blast)
  then show ?thesis by (simp add: tabbable_def)
qed


text \<open>
  What F2 does in a mounted cell that is not in content mode with the focus on its
  container: with the focus on
  the container in cell mode it enters content mode and focuses the first tabbable
  descendant (the focus stays on the container when there is none), and a second F2 brings
  the focus back to the container; with the focus inside the content it leaves content mode
  and focuses the container; from content mode with the focus on the first tabbable
  descendant, every managed element being tabbable, two presses return to content mode with
  the focus on that descendant.
\<close>

lemma f2_toggle_from_cell_mode_or_content:
  assumes "mounted s"
  shows "(activeElement s = Container \<and> \<not> isCellEntered s \<longrightarrow>
            isCellEntered (keyUp F2 s)
            \<and> activeElement (keyUp F2 s) =
                (case tabbable (els (keyUp F2 s)) of [] \<Rightarrow> Container | i # _ \<Rightarrow> Child i)
            \<and> activeElement (keyUp F2 (keyUp F2 s)) = Container
            \<and> (tabbable (els (keyUp F2 s)) \<noteq> [] \<longrightarrow> \<not> isCellEntered (keyUp F2 (keyUp F2 s))))
     \<and> (activeElement s \<noteq> Container \<longrightarrow>
            \<not> isCellEntered (keyUp F2 s) \<and> activeElement (keyUp F2 s) = Container
            \<and> tabbable (els (keyUp F2 s)) = (if isCellEntered s then [] else tabbable (els s)))
     \<and> (isCellEntered s \<and> activeElement s = Child i \<and> tabbable (els s) = i # rest
          \<and> set (querySelectorAllManaged (els s)) \<subseteq> set (tabbable (els s)) \<longrightarrow>
            activeElement (keyUp F2 (keyUp F2 s)) = Child i
            \<and> isCellEntered (keyUp F2 (keyUp F2 s)))"
proof (intro conjI impI)
  assume a: "activeElement s = Container \<and> \<not> isCellEntered s"
  define s1 where "s1 = enableInteractives (s\<lparr>isCellEntered := True\<rparr>)"
  have k: "keyUp F2 s = (case tabbable (els s1) of [] \<Rightarrow> s1 | i # _ \<Rightarrow> s1\<lparr>activeElement := Child i\<rparr>)"
    unfolding s1_def using assms a by (intro keyUp_F2_container) simp_all
  have e: "els (keyUp F2 s) = els s1" "isCellEntered (keyUp F2 s)" "mounted (keyUp F2 s)"
    using assms by (simp_all add: k s1_def split: list.splits)
  show "isCellEntered (keyUp F2 s)" by (rule e(2))
  show f: "activeElement (keyUp F2 s) =
      (case tabbable (els (keyUp F2 s)) of [] \<Rightarrow> Container | i # _ \<Rightarrow> Child i)"
    unfolding e(1) using a by (simp add: k s1_def split: list.splits)
  show "activeElement (keyUp F2 (keyUp F2 s)) = Container"
  proof (cases "tabbable (els (keyUp F2 s))")
    case Nil
    with f have "activeElement (keyUp F2 s) = Container" by simp
    with e(2) show ?thesis
      by (simp add: keyUp_def [of F2 "keyUp F2 s"] rerender_def setIsCellEntered_def)
  next
    case (Cons j js)
    with f have "activeElement (keyUp F2 s) \<noteq> Container" by simp
    with e(3) show ?thesis by (simp add: keyUp_F2_inside)
  qed
  show "\<not> isCellEntered (keyUp F2 (keyUp F2 s))" if "tabbable (els (keyUp F2 s)) \<noteq> []"
  proof -
    from that f have "activeElement (keyUp F2 s) \<noteq> Container" by (simp split: list.splits)
    with e(3) show ?thesis by (simp add: keyUp_F2_inside)
  qed
next
  assume a: "activeElement s \<noteq> Container"
  with assms show "\<not> isCellEntered (keyUp F2 s)" "activeElement (keyUp F2 s) = Container"
    "tabbable (els (keyUp F2 s)) = (if isCellEntered s then [] else tabbable (els s))"
    by (simp_all add: keyUp_F2_inside tabbable_disableInteractives)
next
  assume a: "isCellEntered s \<and> activeElement s = Child i \<and> tabbable (els s) = i # rest
          \<and> set (querySelectorAllManaged (els s)) \<subseteq> set (tabbable (els s))"
  define s0 where "s0 = s\<lparr>isCellEntered := False, activeElement := Container\<rparr>"
  have k1: "keyUp F2 s = disableInteractives s0"
    using assms a by (simp add: keyUp_F2_inside s0_def)
  have p: "mounted (disableInteractives s0)" "activeElement (disableInteractives s0) = Container"
    "\<not> isCellEntered (disableInteractives s0)"
    using assms by (simp_all add: s0_def)
  have "els (enableInteractives ((disableInteractives s0)\<lparr>isCellEntered := True\<rparr>))
      = els (enableInteractives (disableInteractives s0))"
    by (simp add: els_enableInteractives)
  moreover have "tabbable (els (enableInteractives (disableInteractives s0))) = tabbable (els s0)"
    using a by (intro tabbable_enable_disable) (auto simp: s0_def)
  ultimately have t: "tabbable (els (enableInteractives ((disableInteractives s0)\<lparr>isCellEntered := True\<rparr>)))
      = i # rest"
    using a by (simp add: s0_def)
  have k2: "keyUp F2 (keyUp F2 s) =
      (enableInteractives ((disableInteractives s0)\<lparr>isCellEntered := True\<rparr>))\<lparr>activeElement := Child i\<rparr>"
    unfolding k1 using keyUp_F2_container [OF p] by (simp add: t Let_def)
  show "activeElement (keyUp F2 (keyUp F2 s)) = Child i" "isCellEntered (keyUp F2 (keyUp F2 s))"
    by (simp_all add: k2)
qed

lemma keyUp_F2_entered_on_container:
  assumes "isCellEntered s" "activeElement s = Container"
  shows "keyUp F2 s = s"
  using assms by (simp add: keyUp_def rerender_def setIsCellEntered_def)

text \<open>
  C9: F2 with the focus on the container does not always move the focus into the content.
  A cell with one button is rendered as the focus target and enters content mode with the
  focus on the button; the focus then moves to the container (Shift+Tab, with the focus
  events and the frame that follow), which leaves \<^verbatim>\<open>isCellEntered\<close> true. F2 now calls
  \<^verbatim>\<open>setIsCellEntered(true)\<close>, the state does not change, the mode effect does not run,
  and the focus stays on the container although the button is tabbable.
\<close>

theorem f2_on_container_in_content_mode_is_ignored:
  "run [Mount, BrowserFocus Container, FocusOut, FocusIn, AnimationFrame] freshOne
     = Inr (desyncOne\<lparr>focusRequests := [(2, - 1)]\<rparr>)
   \<and> mounted desyncOne \<and> isCellEntered desyncOne \<and> activeElement desyncOne = Container
   \<and> tabbable (els desyncOne) = [0]
   \<and> step (KeyUp F2) (desyncOne\<lparr>focusRequests := [(2, - 1)]\<rparr>)
       = Inr (desyncOne\<lparr>focusRequests := [(2, - 1)]\<rparr>)
   \<and> step (KeyUp F2) desyncOne = Inr desyncOne"
  by code_simp

subsection \<open>The tab-managed marker\<close>

lemma markersKept_refl: "markersKept es es"
  by (simp add: markersKept_def list_all2_same)

lemma markersKept_trans: "markersKept a b \<Longrightarrow> markersKept b c \<Longrightarrow> markersKept a c"
  unfolding markersKept_def by (erule (1) list_all2_trans [rotated]) simp

lemma markersKept_map: "(\<And>e. tabManaged e \<Longrightarrow> tabManaged (f e)) \<Longrightarrow> markersKept es (map f es)"
  by (simp add: markersKept_def list_all2_map2 list_all2_same)

lemma markersKept_enableInteractives: "markersKept (els s) (els (enableInteractives s))"
  unfolding els_enableInteractives by (rule markersKept_map) (simp add: setTabIndex_def)

lemma markersKept_disableInteractives: "markersKept (els s) (els (disableInteractives s))"
  unfolding els_disableInteractives
  by (rule markersKept_map) (simp add: setTabIndex_def markManaged_def)

lemma markersKept_effectEntered: "markersKept (els s) (els (effectEntered s))"
  by (simp add: els_effectEntered markersKept_refl markersKept_enableInteractives
      markersKept_disableInteractives)

lemma markersKept_rerender: "markersKept (els s) (els (rerender old s))"
  by (simp add: rerender_def markersKept_refl markersKept_effectEntered)

lemma markersKept_keyUp: "markersKept (els s) (els (keyUp k s))"
  unfolding keyUp_def using markersKept_rerender [of "onKeyUp k s" s] by (simp add: els_onKeyUp)

lemma markersKept_gridUpdate: "markersKept (els s) (els (gridUpdate fc hi s))"
proof -
  let ?s1 = "s\<lparr>focusedCell := fc, headerIsInteractive := hi\<rparr>"
  have "markersKept (els ?s1) (els (rerender ?s1 (effectFocused ?s1)))"
    using markersKept_rerender [of "effectFocused ?s1" ?s1] by (simp add: els_effectFocused)
  then show ?thesis
    by (simp add: gridUpdate_def Let_def rerender_same markersKept_refl)
qed

lemma markersKept_mount: "markersKept (els s) (els (mount s))"
proof -
  let ?s0 = "s\<lparr>mounted := True, isCellEntered := False\<rparr>"
  have "markersKept (els ?s0) (els (effectEntered ?s0))"
    by (rule markersKept_effectEntered)
  moreover have "markersKept (els (effectEntered ?s0))
      (els (rerender (effectEntered ?s0) (effectFocused (effectEntered ?s0))))"
    using markersKept_rerender [of "effectFocused (effectEntered ?s0)" "effectEntered ?s0"]
    by (simp add: els_effectFocused)
  ultimately show ?thesis
    unfolding mount_def Let_def by (auto dest: markersKept_trans)
qed

lemma markersKept_runDeferred:
  assumes "runDeferred d s = Inr s'"
  shows "markersKept (els s) (els s')"
proof (cases d)
  case DeferredBlur
  with assms show ?thesis
    by (auto simp: blurContainer_def markersKept_refl split: if_splits)
next
  case DeferredFocusCheck
  have "markersKept (els s) (els (rerender s (setIsCellEntered False s)))"
    using markersKept_rerender [of "setIsCellEntered False s" s] by (simp add: setIsCellEntered_def)
  with DeferredFocusCheck assms show ?thesis
    by (auto simp: markersKept_refl split: if_splits)
qed

lemma markersKept_step:
  assumes "step e s = Inr s'"
  shows "markersKept (els s) (els s')"
proof (cases e)
  case AnimationFrame
  with assms show ?thesis
    using markersKept_runDeferred [of _ "s\<lparr>frames := tl (frames s)\<rparr>" s']
    by (auto simp: markersKept_refl split: list.splits)
qed (use assms in \<open>auto simp: markersKept_refl markersKept_mount markersKept_gridUpdate
      markersKept_keyUp onFocusIn_def onFocusOut_def\<close>)

lemma markersKept_run:
  "run evs s = Inr s' \<Longrightarrow> markersKept (els s) (els s')"
proof (induction evs arbitrary: s)
  case Nil
  then show ?case by (simp add: markersKept_refl)
next
  case (Cons e evs)
  then obtain s1 where s1: "step e s = Inr s1" "run evs s1 = Inr s'"
    by (auto split: sum.splits)
  from markersKept_step [OF s1(1)] Cons.IH [OF s1(2)] show ?case
    by (rule markersKept_trans)
qed


text \<open>
  C10: no sequence of events removes a tab-managed marker: every element that carries it
  before carries it after. \<^verbatim>\<open>enableInteractives\<close> sets the tab index of the marked
  elements to 0 and leaves every marker as it is, so the marked elements are the same
  before and after. The focus effect of a focused cell counts the marked elements to decide
  between content mode and the focus on the container, and the count is 0 while no element
  is marked.
\<close>

theorem tab_managed_marker_persists:
  "(run evs s = Inr s' \<longrightarrow> markersKept (els s) (els s'))
   \<and> els (enableInteractives s) = map (\<lambda>e. if tabManaged e then setTabIndex 0 e else e) (els s)
   \<and> map tabManaged (els (enableInteractives s)) = map tabManaged (els s)
   \<and> querySelectorAllManaged (els (enableInteractives s)) = querySelectorAllManaged (els s)
   \<and> (mounted s \<and> isFocused s \<longrightarrow>
        effectFocused s =
          (if length (querySelectorAllManaged (els s)) = 1 then s\<lparr>isCellEntered := True\<rparr>
           else s\<lparr>activeElement := Container\<rparr>))
   \<and> ((\<forall>e \<in> set (els s). \<not> tabManaged e) \<longrightarrow> length (querySelectorAllManaged (els s)) = 0)"
proof -
  have a: "map tabManaged (els (enableInteractives s)) = map tabManaged (els s)"
    by (simp add: els_enableInteractives setTabIndex_def)
  have b: "mounted s \<and> isFocused s \<longrightarrow>
        effectFocused s =
          (if length (querySelectorAllManaged (els s)) = 1 then s\<lparr>isCellEntered := True\<rparr>
           else s\<lparr>activeElement := Container\<rparr>)"
    by (simp add: effectFocused_def setIsCellEntered_def)
  have c: "(\<forall>e \<in> set (els s). \<not> tabManaged e) \<longrightarrow> length (querySelectorAllManaged (els s)) = 0"
    using managed_Nil [of "els s"] by simp
  show ?thesis
    using markersKept_run [of evs s s'] els_enableInteractives [of s]
      managed_enableInteractives [of s] a b c
    by blast
qed

theorem tab_managed_marker_persists_witness:
  "run [Mount, BrowserFocus Container, KeyUp ESCAPE] freshOne = Inr escapedOne
   \<and> tabManaged (els escapedOne ! 0)
   \<and> tabIndexAttr (els escapedOne ! 0) = Some (- 1)
   \<and> run [KeyUp ENTER] escapedOne = Inr enteredOne
   \<and> tabManaged (els enteredOne ! 0)
   \<and> tabIndexAttr (els enteredOne ! 0) = Some 0
   \<and> map tabManaged (els freshOne) = [False]
   \<and> length (querySelectorAllManaged (els freshOne)) = 0
   \<and> length (tabbable (els freshOne)) = 1
   \<and> mounted enteredOne \<and> isFocused enteredOne
   \<and> length (querySelectorAllManaged (els enteredOne)) = 1
   \<and> effectFocused enteredOne = enteredOne"
proof -
  have r1: "run [Mount, BrowserFocus Container, KeyUp ESCAPE] freshOne = Inr escapedOne"
    by (rule run_freshOne_escaped)
  have r2: "run [KeyUp ENTER] escapedOne = Inr enteredOne"
    by code_simp
  have e: "tabManaged (els escapedOne ! 0)" "tabIndexAttr (els escapedOne ! 0) = Some (- 1)"
    by (simp_all add: escapedOne_def managedButton_def)
  have e': "tabIndexAttr (els enteredOne ! 0) = Some 0"
    by (simp add: enteredOne_def enabledButton_def)
  have l: "els escapedOne = [els escapedOne ! 0]" "els enteredOne = [els enteredOne ! 0]"
    by (simp_all add: escapedOne_def enteredOne_def)
  have f: "\<forall>e \<in> set (els freshOne). \<not> tabManaged e"
    by (simp add: freshOne_def button_def)
  have f': "map tabManaged (els freshOne) = [False]"
    by (simp add: freshOne_def button_def)
  have g: "mounted enteredOne" "isFocused enteredOne"
    "length (querySelectorAllManaged (els enteredOne)) = 1"
    by code_simp+
  have h: "length (tabbable (els freshOne)) = 1"
    by code_simp
  have i: "enteredOne\<lparr>isCellEntered := True\<rparr> = enteredOne"
    by (simp add: enteredOne_def)
  note t = tab_managed_marker_persists [of "[Mount, BrowserFocus Container, KeyUp ESCAPE]" freshOne escapedOne]
  note u = tab_managed_marker_persists [of "[KeyUp ENTER]" escapedOne enteredOne]
  note v = tab_managed_marker_persists [of "[]" enteredOne enteredOne]
  have "markersKept (els escapedOne) (els enteredOne)"
    using u [THEN conjunct1] r2 by simp
  then have "list_all2 (\<lambda>e e'. tabManaged e \<longrightarrow> tabManaged e')
      [els escapedOne ! 0] [els enteredOne ! 0]"
    unfolding markersKept_def using l by simp
  then have k2: "tabManaged (els enteredOne ! 0)"
    using e(1) by simp
  have k3: "length (querySelectorAllManaged (els freshOne)) = 0"
    using t f by blast
  have k4: "effectFocused enteredOne = enteredOne"
    using v g i by simp
  show ?thesis
    using r1 r2 e e' f' g h k2 k3 k4 by blast
qed

end
